theory Spec2Isabelle
  imports Main
begin

section \<open>The WebSocket transport of the OpAMP client\<close>

text \<open>
  A shallow embedding of \<^verbatim>\<open>client/wsclient.go\<close> and of the receiver loop of
  \<^verbatim>\<open>client/internal/wsreceiver.go\<close>. Every function takes the client state and
  returns the updated one together with the list of the effects it performed, in
  program order: dials, user callbacks and log lines are events of a trace.
  What the environment decides (the outcome of a dial, the value an atomic flag holds
  when it is read, which channel of a \<^verbatim>\<open>select\<close> fires) is an argument.
\<close>

subsection \<open>Data\<close>

text \<open>\<^verbatim>\<open>time.Duration\<close>: a signed count of nanoseconds; the code only compares durations.\<close>

type_synonym duration = int

text \<open>\<^verbatim>\<open>types.InstanceUid\<close>: an opaque key.\<close>

type_synonym InstanceUid = nat

text \<open>The fields of \<^verbatim>\<open>url.URL\<close> the client reads or writes.\<close>

record url =
  Scheme :: string
  Host :: string
  Path :: string

text \<open>
  Errors are values. \<open>UrlError\<close> is \<^verbatim>\<open>&url.Error{Op, URL, Err}\<close>, which wraps its cause;
  \<open>CloseError\<close> is \<^verbatim>\<open>*websocket.CloseError\<close> with its close code; \<open>DecodeError\<close> is
  the \<^verbatim>\<open>fmt.Errorf("cannot decode received message: %w", err)\<close> of the receiver.
\<close>

datatype error =
    ContextCanceled
  | DialFailure nat
  | ErrNoLocation
  | CallbackFailure nat
  | UrlError string url error
  | CloseError int
  | ReadFailure nat
  | DecodeError error
  | SendFailure nat
  | PrepareFailure nat

text \<open>\<^verbatim>\<open>errors.Is(err, context.Canceled)\<close>: follows the chain of wrapped errors.\<close>

fun errors_Is_Canceled :: "error \<Rightarrow> bool" where
  "errors_Is_Canceled ContextCanceled = True"
| "errors_Is_Canceled (UrlError opn u e) = errors_Is_Canceled e"
| "errors_Is_Canceled (DecodeError e) = errors_Is_Canceled e"
| "errors_Is_Canceled _ = False"

text \<open>\<^verbatim>\<open>sharedinternal.OptionalDuration\<close>: "no hint" is \<open>Defined = False\<close>.\<close>

record OptionalDuration =
  Duration :: duration
  Defined :: bool

definition noDuration :: OptionalDuration where
  "noDuration = \<lparr>Duration = 0, Defined = False\<rparr>"

record request =
  URL :: url
  reqId :: nat

text \<open>
  An \<^verbatim>\<open>*http.Response\<close> of a failed upgrade. \<open>Location\<close> is what \<^verbatim>\<open>resp.Location()\<close>
  of the standard library returns for it (an error when the header is missing or does
  not parse); \<open>RetryAfterHeader\<close> is the hint its Retry-After header carries.
\<close>

record response =
  StatusCode :: int
  Location :: "error + url"
  Request :: request
  RetryAfterHeader :: OptionalDuration

text \<open>
  Modelled from the spec: \<^verbatim>\<open>sharedinternal.ExtractRetryAfterHeader\<close> is not among the
  sources; it yields the "nullable retry-after hint extracted from a server response
  header".
\<close>

definition ExtractRetryAfterHeader :: "response \<Rightarrow> OptionalDuration" where
  "ExtractRetryAfterHeader resp = RetryAfterHeader resp"

text \<open>The user callback \<^verbatim>\<open>CheckRedirect(req, viaReq, via)\<close>; \<open>None\<close> is a nil callback.\<close>

type_synonym checkRedirect = "request \<Rightarrow> request list \<Rightarrow> response list \<Rightarrow> error option"

text \<open>
  The effects of the supervisor goroutine, in the order the code performs them.
  \<open>SenderStart\<close> carries what \<^verbatim>\<open>sender.Start\<close> returned; \<open>ReceiverStart\<close> is
  \<^verbatim>\<open>r.Start(receiverCtx)\<close>, which spawns the receiver loop; \<open>GoCoordinator\<close> is the
  \<^verbatim>\<open>go func() {...}()\<close> of \<^verbatim>\<open>runOneCycle\<close>; \<open>StopSender\<close> and \<open>StopReceiver\<close> are the
  cancel functions of the two contexts; \<open>ConnClose\<close> is \<^verbatim>\<open>c.conn.Close()\<close> on the handle
  the client held when the \<^verbatim>\<open>defer\<close> statement ran. The last three are the blocking
  operations of the coordinator goroutine: a receive from \<^verbatim>\<open>sender.IsStopped()\<close>, a
  receive from \<^verbatim>\<open>r.IsStopped()\<close>, and the inner \<^verbatim>\<open>select\<close> between \<^verbatim>\<open>r.IsStopped()\<close>
  and \<^verbatim>\<open>time.After(c.connShutdownTimeout)\<close>.
\<close>

datatype event =
    DialContext url
  | OnConnectFailed error
  | OnConnect
  | CheckRedirectCalled request "request list" "response list"
  | Errorf string
  | Debugf string
  | SenderStart InstanceUid "error option"
  | ReceiverStart InstanceUid
  | GoCoordinator InstanceUid
  | StopSender
  | StopReceiver
  | ConnClose "nat option"
  | AwaitSenderStopped InstanceUid
  | AwaitReceiverStopped InstanceUid
  | SelectReceiverStoppedOrAfter InstanceUid duration

text \<open>
  The fields of \<^verbatim>\<open>wsClient\<close>. \<open>senders\<close> is a Go map, whose zero value \<^verbatim>\<open>nil\<close> is
  \<open>None\<close>; \<open>responseChain\<close> is a slice, whose \<^verbatim>\<open>nil\<close> is the empty list. \<open>common\<close> is
  the state of \<^verbatim>\<open>internal.ClientCommon\<close>, which is not among the sources.
\<close>

record 'c wsClient =
  common :: 'c
  CheckRedirect :: "checkRedirect option"
  url :: url
  conn :: "nat option"
  senders :: "(InstanceUid \<rightharpoonup> nat) option"
  lastInternalErr :: "error option"
  connShutdownTimeout :: duration
  responseChain :: "response list"

definition defaultShutdownTimeout :: duration where
  "defaultShutdownTimeout = 5 * 1000000000"

subsection \<open>Redirects\<close>

definition viaReq :: "response list \<Rightarrow> request list" where
  "viaReq resps = map Request resps"

text \<open>The scheme rewrite of \<^verbatim>\<open>handleRedirect\<close> (wsclient.go, lines 215 to 219).\<close>

definition rewriteScheme :: "url \<Rightarrow> url" where
  "rewriteScheme redirect =
     (if Scheme redirect = ''http'' then redirect\<lparr>Scheme := ''ws''\<rparr>
      else if Scheme redirect = ''https'' then redirect\<lparr>Scheme := ''wss''\<rparr>
      else redirect)"

definition handleRedirect ::
  "'c wsClient \<Rightarrow> response \<Rightarrow> error option \<times> 'c wsClient \<times> event list" where
  "handleRedirect c resp =
     (let c1 = c\<lparr>responseChain := responseChain c @ [resp]\<rparr> in
      case Location resp of
        Inl err \<Rightarrow> (Some err, c1, [Errorf ''redirect, but no valid location''])
      | Inr redirect \<Rightarrow>
          (let nextRequest = (Request resp)\<lparr>URL := redirect\<rparr>;
               call = CheckRedirectCalled nextRequest (viaReq (responseChain c1)) (responseChain c1);
               verdict = (case CheckRedirect c1 of
                            None \<Rightarrow> None
                          | Some f \<Rightarrow> f nextRequest (viaReq (responseChain c1)) (responseChain c1));
               calls = (case CheckRedirect c1 of None \<Rightarrow> [] | Some f \<Rightarrow> [call])
           in case verdict of
                Some err \<Rightarrow> (Some (UrlError ''Get'' redirect err), c1, calls)
              | None \<Rightarrow>
                  (None, c1\<lparr>url := rewriteScheme redirect\<rparr>, calls @ [Debugf ''redirect''])))"

subsection \<open>One connection attempt\<close>

text \<open>
  What the environment contributes to one run of \<^verbatim>\<open>tryConnectOnce\<close>: the outcome of
  \<^verbatim>\<open>DialContext\<close>, and the value \<^verbatim>\<open>IsStopping()\<close> returns at each of its two reads
  (line 245 after the dial, line 238 in the deferred function); another goroutine may
  set the flag in between.
\<close>

datatype dialResult =
    DialOk nat
  | DialErr error "response option"

record attempt =
  dial :: dialResult
  stoppingAfterDial :: bool
  stoppingAtExit :: bool

text \<open>The deferred function of \<^verbatim>\<open>tryConnectOnce\<close> (lines 235 to 242).\<close>

definition tryConnectOnce_deferred ::
  "attempt \<Rightarrow> bool \<Rightarrow> error option \<Rightarrow> 'c wsClient \<Rightarrow> 'c wsClient \<times> event list" where
  "tryConnectOnce_deferred att redirecting err c =
     (case err of
        None \<Rightarrow> (c, [])
      | Some e \<Rightarrow>
          (if \<not> redirecting
           then (c\<lparr>responseChain := []\<rparr>, if \<not> stoppingAtExit att then [OnConnectFailed e] else [])
           else (c, [])))"

text \<open>
  The body up to each \<^verbatim>\<open>return\<close>: the result values, the flag \<^verbatim>\<open>redirecting\<close>, the
  state and the events so far.
\<close>

definition tryConnectOnce_body ::
  "attempt \<Rightarrow> 'c wsClient \<Rightarrow> (OptionalDuration \<times> error option) \<times> bool \<times> 'c wsClient \<times> event list" where
  "tryConnectOnce_body att c =
     (case dial att of
        DialErr err respOpt \<Rightarrow>
          (let failed = (if \<not> stoppingAfterDial att then [OnConnectFailed err] else []) in
           case respOpt of
             Some resp \<Rightarrow>
               (let duration = ExtractRetryAfterHeader resp in
                if StatusCode resp \<ge> 300 \<and> StatusCode resp < 400
                then (case handleRedirect c resp of
                        (Some err', c', evs) \<Rightarrow>
                          ((duration, Some err'), True, c', DialContext (url c) # failed @ evs)
                      | (None, c', evs) \<Rightarrow>
                          ((duration, Some err), True, c', DialContext (url c) # failed @ evs))
                else ((duration, Some err), False, c,
                      DialContext (url c) # failed @ [Errorf ''Server responded with status'']))
           | None \<Rightarrow> ((noDuration, Some err), False, c, DialContext (url c) # failed))
      | DialOk k \<Rightarrow>
          ((noDuration, None), False, c\<lparr>conn := Some k\<rparr>, [DialContext (url c), OnConnect]))"

definition tryConnectOnce ::
  "attempt \<Rightarrow> 'c wsClient \<Rightarrow> (OptionalDuration \<times> error option) \<times> 'c wsClient \<times> event list" where
  "tryConnectOnce att c =
     (case tryConnectOnce_body att c of
        ((retryAfter, err), redirecting, c', evs) \<Rightarrow>
          (case tryConnectOnce_deferred att redirecting err c' of
             (c'', evs') \<Rightarrow> ((retryAfter, err), c'', evs @ evs')))"

subsection \<open>Connecting with backoff\<close>

text \<open>
  One turn of the \<^verbatim>\<open>select\<close> of \<^verbatim>\<open>ensureConnected\<close>: either the timer fires and an
  attempt is made in the environment \<open>att\<close>, or \<^verbatim>\<open>ctx.Done()\<close> fires first and
  \<^verbatim>\<open>ctx.Err()\<close> is returned.
\<close>

datatype tick =
    CtxDone error
  | TimerFired attempt

text \<open>
  What one iteration of the loop did: the duration its timer was created with, the value
  \<^verbatim>\<open>NextBackOff()\<close> returned in it, and how it ended. \<open>Pending\<close> is an iteration whose
  \<^verbatim>\<open>select\<close> has not fired in the part of the run that is given.
\<close>

datatype iterOutcome =
    Pending
  | Cancelled error
  | Tried OptionalDuration "error option"

record iteration =
  wait :: duration
  backoff :: duration
  outcome :: iterOutcome

text \<open>
  The loop of \<^verbatim>\<open>ensureConnected\<close>. The backoff policy is the library
  \<^verbatim>\<open>cenkalti/backoff\<close>, randomised and outside the repository: \<open>nb k\<close> is the value the
  \<open>k\<close>-th call of \<^verbatim>\<open>NextBackOff()\<close> returns. The loop runs as long as the environment
  supplies turns; the result \<open>None\<close> says it has not returned, \<open>Some None\<close> that it
  returned \<^verbatim>\<open>nil\<close>, \<open>Some (Some e)\<close> that it returned the error \<open>e\<close>.
\<close>

fun ensureConnected_loop ::
  "(nat \<Rightarrow> duration) \<Rightarrow> nat \<Rightarrow> duration \<Rightarrow> tick list \<Rightarrow> 'c wsClient \<Rightarrow>
     error option option \<times> 'c wsClient \<times> event list \<times> iteration list" where
  "ensureConnected_loop nb k interval [] c =
     (None, c, [], [\<lparr>wait = interval, backoff = nb k, outcome = Pending\<rparr>])"
| "ensureConnected_loop nb k interval (t # ts) c =
     (let timer = interval; interval1 = nb k in
      case t of
        CtxDone e \<Rightarrow>
          (Some (Some e), c, [Debugf ''Client is stopped, will not try anymore.''],
           [\<lparr>wait = timer, backoff = interval1, outcome = Cancelled e\<rparr>])
      | TimerFired att \<Rightarrow>
          (case tryConnectOnce att c of
             ((retryAfter, err), c1, evs) \<Rightarrow>
               (let it = \<lparr>wait = timer, backoff = interval1, outcome = Tried retryAfter err\<rparr> in
                case err of
                  None \<Rightarrow> (Some None, c1, evs, [it])
                | Some e \<Rightarrow>
                    (let c2 = c1\<lparr>lastInternalErr := Some e\<rparr> in
                     if errors_Is_Canceled e
                     then (Some (Some e), c2,
                           evs @ [Debugf ''Client is stopped, will not try anymore.''], [it])
                     else
                       (let interval2 =
                              (if Defined retryAfter \<and> Duration retryAfter > interval1
                               then Duration retryAfter else interval1)
                        in case ensureConnected_loop nb (Suc k) interval2 ts c2 of
                             (r, c3, evs', its) \<Rightarrow>
                               (r, c3, evs @ Errorf ''Connection failed, will retry.'' # evs',
                                it # its))))))"

definition ensureConnected ::
  "(nat \<Rightarrow> duration) \<Rightarrow> tick list \<Rightarrow> 'c wsClient \<Rightarrow>
     error option option \<times> 'c wsClient \<times> event list \<times> iteration list" where
  "ensureConnected nb ts c = ensureConnected_loop nb 0 0 ts c"

subsection \<open>One cycle\<close>

text \<open>
  What the environment contributes to \<^verbatim>\<open>runOneCycle\<close>: the turns of the connect loop,
  the value of \<^verbatim>\<open>IsStopping()\<close> at line 341, the result of \<^verbatim>\<open>PrepareFirstMessage\<close>,
  the result of each \<^verbatim>\<open>sender.Start\<close>, and the order in which each of the two
  \<^verbatim>\<open>range c.senders\<close> loops visits the keys (Go leaves it unspecified).
\<close>

record cycleEnv =
  ticks :: "tick list"
  isStopping :: bool
  prepareFirstMessage :: "error option"
  startResult :: "InstanceUid \<Rightarrow> error option"
  rangeStart :: "InstanceUid list"
  rangeReceive :: "InstanceUid list"

text \<open>The keys a \<^verbatim>\<open>range\<close> over the map visits; a nil map has none.\<close>

definition rangeKeys :: "(InstanceUid \<rightharpoonup> nat) option \<Rightarrow> InstanceUid list \<Rightarrow> InstanceUid list" where
  "rangeKeys m order = (case m of None \<Rightarrow> [] | Some f \<Rightarrow> filter (\<lambda>u. f u \<noteq> None) order)"

text \<open>The first loop (lines 358 to 363): it stops at the first \<^verbatim>\<open>Start\<close> that fails.\<close>

fun startSenders :: "(InstanceUid \<Rightarrow> error option) \<Rightarrow> InstanceUid list \<Rightarrow> event list \<times> error option" where
  "startSenders res [] = ([], None)"
| "startSenders res (u # us) =
     (case res u of
        Some e \<Rightarrow> ([SenderStart u (Some e)], Some e)
      | None \<Rightarrow> (case startSenders res us of (evs, r) \<Rightarrow> (SenderStart u None # evs, r)))"

text \<open>The second loop (lines 373 to 414): each turn starts a receiver and spawns a coordinator.\<close>

definition startReceivers :: "InstanceUid list \<Rightarrow> event list" where
  "startReceivers us = concat (map (\<lambda>u. [ReceiverStart u, GoCoordinator u]) us)"

text \<open>
  \<^verbatim>\<open>runOneCycle\<close>: the first component says whether the function has returned. The
  deferred calls run at the return in the reverse of the order of their \<^verbatim>\<open>defer\<close>
  statements.
\<close>

definition runOneCycle ::
  "(nat \<Rightarrow> duration) \<Rightarrow> cycleEnv \<Rightarrow> 'c wsClient \<Rightarrow> bool \<times> 'c wsClient \<times> event list" where
  "runOneCycle nb env c =
     (case ensureConnected nb (ticks env) c of
        (None, c1, evs, its) \<Rightarrow> (False, c1, evs)
      | (Some (Some err), c1, evs, its) \<Rightarrow> (True, c1, evs)
      | (Some None, c1, evs, its) \<Rightarrow>
          (let closeConn = ConnClose (conn c1) in
           if isStopping env then (True, c1, evs @ [closeConn])
           else
             (case prepareFirstMessage env of
                Some err \<Rightarrow>
                  (True, c1, evs @ [Errorf ''cannot prepare the first message'', closeConn])
              | None \<Rightarrow>
                  (case startSenders (startResult env) (rangeKeys (senders c1) (rangeStart env)) of
                     (started, Some err) \<Rightarrow>
                       (True, c1,
                        evs @ started @
                        [Errorf ''Failed to send first status report'', StopSender, closeConn])
                   | (started, None) \<Rightarrow>
                       (True, c1,
                        evs @ started @
                        startReceivers (rangeKeys (senders c1) (rangeReceive env)) @
                        [StopReceiver, StopSender, closeConn])))))"

subsection \<open>The shutdown coordinator\<close>

text \<open>
  The goroutine spawned per agent (lines 385 to 413). Which case of a \<^verbatim>\<open>select\<close> fires
  is the environment's choice: \<open>selected\<close> for the outer one, \<open>waited\<close> for the inner
  one. \<open>stoppingErr\<close> is what \<^verbatim>\<open>sender.StoppingErr()\<close> returns.
\<close>

datatype selected = SenderStopped | ReceiverStopped

datatype waited = ReceiverStoppedInTime | TimeoutElapsed

definition coordinator ::
  "'c wsClient \<Rightarrow> InstanceUid \<Rightarrow> selected \<Rightarrow> error option \<Rightarrow> waited \<Rightarrow> event list" where
  "coordinator c u sel stoppingErr w =
     (case sel of
        SenderStopped \<Rightarrow>
          (case stoppingErr of
             Some err \<Rightarrow>
               [Debugf ''Error stopping the sender'', StopReceiver, AwaitReceiverStopped u]
           | None \<Rightarrow>
               Debugf ''Waiting for receiver to stop.'' #
               SelectReceiverStoppedOrAfter u (connShutdownTimeout c) #
               (case w of
                  ReceiverStoppedInTime \<Rightarrow> [Debugf ''Receiver stopped.'']
                | TimeoutElapsed \<Rightarrow>
                    [Debugf ''Timeout waiting for receiver to stop.'', StopReceiver,
                     AwaitReceiverStopped u]))
      | ReceiverStopped \<Rightarrow> [StopSender, AwaitSenderStopped u])"

subsection \<open>The goroutines of a cycle, interleaved\<close>

text \<open>
  The supervisor performs the events of \<^verbatim>\<open>runOneCycle\<close> one at a time while the sender
  and receiver goroutines it started take their own steps. \<open>pending\<close> holds the events
  the supervisor has still to perform: \<^verbatim>\<open>runOneCycle\<close> has returned when it is empty.
\<close>

datatype task = Running | Stopped

record cycleState =
  pending :: "event list"
  connClosed :: bool
  senderCtxDone :: bool
  receiverCtxDone :: bool
  senderTask :: "InstanceUid \<rightharpoonup> task"
  receiverTask :: "InstanceUid \<rightharpoonup> task"

definition startCycle :: "event list \<Rightarrow> cycleState" where
  "startCycle evs =
     \<lparr>pending = evs, connClosed = False, senderCtxDone = False, receiverCtxDone = False,
      senderTask = Map.empty, receiverTask = Map.empty\<rparr>"

fun perform :: "event \<Rightarrow> cycleState \<Rightarrow> cycleState" where
  "perform (SenderStart u None) s = s\<lparr>senderTask := (senderTask s)(u \<mapsto> Running)\<rparr>"
| "perform (ReceiverStart u) s = s\<lparr>receiverTask := (receiverTask s)(u \<mapsto> Running)\<rparr>"
| "perform StopSender s = s\<lparr>senderCtxDone := True\<rparr>"
| "perform StopReceiver s = s\<lparr>receiverCtxDone := True\<rparr>"
| "perform (ConnClose k) s = s\<lparr>connClosed := True\<rparr>"
| "perform e s = s"

definition supervisorStep :: "cycleState \<Rightarrow> cycleState" where
  "supervisorStep s =
     (case pending s of [] \<Rightarrow> s | e # es \<Rightarrow> perform e (s\<lparr>pending := es\<rparr>))"

text \<open>
  A step of the receiver goroutine: \<^verbatim>\<open>ReceiverLoop\<close> returns, closing \<^verbatim>\<open>r.stopped\<close>, once
  its context is done or a read has failed, as every read of a closed connection does.
\<close>

definition receiverStep :: "InstanceUid \<Rightarrow> cycleState \<Rightarrow> cycleState" where
  "receiverStep u s =
     (if receiverTask s u = Some Running \<and> (receiverCtxDone s \<or> connClosed s)
      then s\<lparr>receiverTask := (receiverTask s)(u \<mapsto> Stopped)\<rparr> else s)"

text \<open>
  Modelled from the spec: \<^verbatim>\<open>internal.WSSender\<close> is not among the sources. "On ctx
  cancellation the writer loop must: send a WebSocket Close frame (initiating the close
  handshake) and then exit"; "a write error terminates the task".
\<close>

definition senderStep :: "InstanceUid \<Rightarrow> cycleState \<Rightarrow> cycleState" where
  "senderStep u s =
     (if senderTask s u = Some Running \<and> (senderCtxDone s \<or> connClosed s)
      then s\<lparr>senderTask := (senderTask s)(u \<mapsto> Stopped)\<rparr> else s)"

datatype thread = Supervisor | SenderOf InstanceUid | ReceiverOf InstanceUid

fun step :: "thread \<Rightarrow> cycleState \<Rightarrow> cycleState" where
  "step Supervisor s = supervisorStep s"
| "step (SenderOf u) s = senderStep u s"
| "step (ReceiverOf u) s = receiverStep u s"

text \<open>A schedule is the order in which the goroutines take their steps.\<close>

fun run :: "thread list \<Rightarrow> cycleState \<Rightarrow> cycleState" where
  "run [] s = s"
| "run (t # ts) s = run ts (step t s)"

subsection \<open>The receiver loop\<close>

text \<open>The fields of \<^verbatim>\<open>protobufs.ServerToAgent\<close> the core inspects: the flags bit-set.\<close>

record ServerToAgent =
  Flags :: nat
  payload :: nat

datatype readResult =
    ReadErr error
  | Frame "nat list"

text \<open>
  \<^verbatim>\<open>receiveMessage\<close>: \<open>decode\<close> is \<^verbatim>\<open>internal.DecodeWSMessage\<close>, which is not among the
  sources.
\<close>

definition receiveMessage ::
  "(nat list \<Rightarrow> error + ServerToAgent) \<Rightarrow> readResult \<Rightarrow> error + ServerToAgent" where
  "receiveMessage decode rd =
     (case rd of
        ReadErr err \<Rightarrow> Inl err
      | Frame bytes \<Rightarrow>
          (case decode bytes of Inl err \<Rightarrow> Inl (DecodeError err) | Inr msg \<Rightarrow> Inr msg))"

definition CloseNormalClosure :: int where
  "CloseNormalClosure = 1000"

text \<open>\<^verbatim>\<open>websocket.IsCloseError\<close>: a type assertion, which does not unwrap.\<close>

definition IsCloseError :: "error \<Rightarrow> int list \<Rightarrow> bool" where
  "IsCloseError err codes = (case err of CloseError code \<Rightarrow> code \<in> set codes | _ \<Rightarrow> False)"

text \<open>
  One turn of the loop, as the environment decides it: the context is done at the outer
  \<^verbatim>\<open>select\<close>; or a read is started and the context is done before it completes; or the
  read completes first.
\<close>

datatype turn =
    DoneBeforeRead
  | DoneWhileReading
  | ReadReturned readResult

datatype recvEvent =
    ReceiveErrorf error
  | ProcessReceivedMessage ServerToAgent
  | OnRestartRequested
  | CallbackErrorf error
  | Dispatched nat
  | CloseStoppedChan

text \<open>
  \<^verbatim>\<open>ReceiverLoop\<close>: the first component says whether the loop has returned. \<open>process\<close>
  is the processor's \<^verbatim>\<open>ProcessReceivedMessage\<close>, given by the effects it has on a
  message. The loop runs as long as the environment supplies turns.
\<close>

fun ReceiverLoop ::
  "(nat list \<Rightarrow> error + ServerToAgent) \<Rightarrow> (ServerToAgent \<Rightarrow> recvEvent list) \<Rightarrow> turn list \<Rightarrow>
     bool \<times> recvEvent list" where
  "ReceiverLoop decode process [] = (False, [])"
| "ReceiverLoop decode process (DoneBeforeRead # ts) = (True, [CloseStoppedChan])"
| "ReceiverLoop decode process (DoneWhileReading # ts) = (True, [CloseStoppedChan])"
| "ReceiverLoop decode process (ReadReturned rd # ts) =
     (case receiveMessage decode rd of
        Inl err \<Rightarrow>
          (True,
           (if \<not> IsCloseError err [CloseNormalClosure] then [ReceiveErrorf err] else []) @
           [CloseStoppedChan])
      | Inr msg \<Rightarrow>
          (case ReceiverLoop decode process ts of
             (returned, evs) \<Rightarrow> (returned, ProcessReceivedMessage msg # process msg @ evs)))"

subsection \<open>The received-message processor\<close>

text \<open>
  Modelled from the spec: the processor (\<^verbatim>\<open>receivedprocessor.go\<close>) is not among the
  sources, only its test is. "If the \<^verbatim>\<open>RequestRestart\<close> flag is set, invokes the
  user-provided \<^verbatim>\<open>OnRestartRequested\<close> callback; the callback's error is logged but does
  not terminate the receiver", then it "dispatches other payload fields". The mask
  \<open>requestRestart\<close> of the flag (\<^verbatim>\<open>protobufs.ServerToAgent_RequestRestart\<close>), the
  result \<open>onRestartRequested\<close> of the callback and the dispatches \<open>others\<close> made for the
  other fields are parameters.
\<close>

definition processReceivedMessage ::
  "nat \<Rightarrow> error option \<Rightarrow> (ServerToAgent \<Rightarrow> nat list) \<Rightarrow> ServerToAgent \<Rightarrow> recvEvent list" where
  "processReceivedMessage requestRestart onRestartRequested others msg =
     (if and (Flags msg) requestRestart \<noteq> 0
      then OnRestartRequested #
           (case onRestartRequested of None \<Rightarrow> [] | Some err \<Rightarrow> [CallbackErrorf err])
      else []) @
     map Dispatched (others msg)"

subsection \<open>Creating and preparing the client\<close>

text \<open>
  \<^verbatim>\<open>NewWebSocket\<close> sets \<^verbatim>\<open>common\<close> and \<^verbatim>\<open>connShutdownTimeout\<close>; every other field has
  the zero value of its type. \<open>com\<close> is what \<^verbatim>\<open>internal.NewClientCommon(logger)\<close>
  returns. The zero \<open>url\<close> stands for the nil pointer that \<^verbatim>\<open>Start\<close> replaces before the
  connect path runs.
\<close>

definition NewWebSocket :: "'c \<Rightarrow> 'c wsClient" where
  "NewWebSocket com =
     \<lparr>common = com, CheckRedirect = None,
      url = \<lparr>Scheme = [], Host = [], Path = []\<rparr>,
      conn = None, senders = None, lastInternalErr = None,
      connShutdownTimeout = defaultShutdownTimeout, responseChain = []\<rparr>"

record Agent =
  InstanceUid :: InstanceUid
  AgentDescription :: nat

record StartSettings =
  OpAMPServerURL :: string
  Agents :: "Agent list"

text \<open>
  How \<^verbatim>\<open>PrepareStart\<close> can end other than by returning \<^verbatim>\<open>nil\<close>: a run-time panic, or
  the error \<^verbatim>\<open>c.common.PrepareStart\<close> returned.
\<close>

datatype failure =
    PanicAssignmentToNilMap
  | PanicNilDereference
  | Returned error

text \<open>
  The loop of \<^verbatim>\<open>PrepareStart\<close> (lines 73 to 80). \<open>newSender\<close> is the sender
  \<^verbatim>\<open>internal.NewSender\<close> creates for an agent; \<open>register\<close> stands for the three
  statements on \<^verbatim>\<open>c.common\<close> (lines 77 to 79), whose code is not among the sources.
\<close>

fun prepareAgents ::
  "(Agent \<Rightarrow> nat) \<Rightarrow> (Agent \<Rightarrow> nat \<Rightarrow> 'c \<Rightarrow> failure + 'c) \<Rightarrow> Agent list \<Rightarrow> 'c wsClient \<Rightarrow>
     failure + 'c wsClient" where
  "prepareAgents newSender register [] c = Inr c"
| "prepareAgents newSender register (agent # agents) c =
     (let sender = newSender agent in
      case senders c of
        None \<Rightarrow> Inl PanicAssignmentToNilMap
      | Some m \<Rightarrow>
          (let c1 = c\<lparr>senders := Some (m(InstanceUid agent \<mapsto> sender))\<rparr> in
           case register agent sender (common c1) of
             Inl f \<Rightarrow> Inl f
           | Inr com \<Rightarrow> prepareAgents newSender register agents (c1\<lparr>common := com\<rparr>)))"

definition PrepareStart ::
  "(Agent \<Rightarrow> nat) \<Rightarrow> (Agent \<Rightarrow> nat \<Rightarrow> 'c \<Rightarrow> failure + 'c) \<Rightarrow>
   (StartSettings \<Rightarrow> 'c \<Rightarrow> error option \<times> 'c) \<Rightarrow>
   'c wsClient \<Rightarrow> StartSettings \<Rightarrow> failure + 'c wsClient" where
  "PrepareStart newSender register commonPrepareStart c settings =
     (case prepareAgents newSender register (Agents settings) c of
        Inl f \<Rightarrow> Inl f
      | Inr c1 \<Rightarrow>
          (case commonPrepareStart settings (common c1) of
             (Some err, com) \<Rightarrow> Inl (Returned err)
           | (None, com) \<Rightarrow> Inr (c1\<lparr>common := com\<rparr>)))"

subsection \<open>Reading traces\<close>

text \<open>The errors passed to \<^verbatim>\<open>OnConnectFailed\<close>, one per call, in order.\<close>

definition onConnectFailedCalls :: "event list \<Rightarrow> error list" where
  "onConnectFailedCalls evs =
     concat (map (\<lambda>ev. case ev of OnConnectFailed e \<Rightarrow> [e] | _ \<Rightarrow> []) evs)"

text \<open>The URLs dialled, one per call of \<^verbatim>\<open>DialContext\<close>, in order.\<close>

definition dialedURLs :: "event list \<Rightarrow> url list" where
  "dialedURLs evs = concat (map (\<lambda>ev. case ev of DialContext u \<Rightarrow> [u] | _ \<Rightarrow> []) evs)"

text \<open>The chains of responses passed to \<^verbatim>\<open>CheckRedirect\<close>, one per call, in order.\<close>

definition checkRedirectCalls :: "event list \<Rightarrow> response list list" where
  "checkRedirectCalls evs =
     concat (map (\<lambda>ev. case ev of CheckRedirectCalled r q v \<Rightarrow> [v] | _ \<Rightarrow> []) evs)"

text \<open>Whether an event is a receive from one of the two \<^verbatim>\<open>IsStopped()\<close> channels.\<close>

fun awaitsStop :: "event \<Rightarrow> bool" where
  "awaitsStop (AwaitSenderStopped u) = True"
| "awaitsStop (AwaitReceiverStopped u) = True"
| "awaitsStop (SelectReceiverStoppedOrAfter u d) = True"
| "awaitsStop e = False"

text \<open>Whether an event is a log line.\<close>

fun isLog :: "event \<Rightarrow> bool" where
  "isLog (Errorf s) = True"
| "isLog (Debugf s) = True"
| "isLog e = False"

text \<open>A turn of the receiver loop that delivers a message: a frame that decodes.\<close>

definition delivers :: "(nat list \<Rightarrow> error + ServerToAgent) \<Rightarrow> turn \<Rightarrow> bool" where
  "delivers decode t =
     (case t of
        ReadReturned rd \<Rightarrow> (case receiveMessage decode rd of Inl err \<Rightarrow> False | Inr msg \<Rightarrow> True)
      | _ \<Rightarrow> False)"

text \<open>The messages the turns deliver, in order.\<close>

definition delivered :: "(nat list \<Rightarrow> error + ServerToAgent) \<Rightarrow> turn list \<Rightarrow> ServerToAgent list" where
  "delivered decode ts =
     concat (map (\<lambda>t. case t of
                          ReadReturned rd \<Rightarrow>
                            (case receiveMessage decode rd of Inl err \<Rightarrow> [] | Inr msg \<Rightarrow> [msg])
                        | _ \<Rightarrow> []) ts)"

text \<open>What the loop does with the messages it is handed.\<close>

definition handled :: "(ServerToAgent \<Rightarrow> recvEvent list) \<Rightarrow> ServerToAgent list \<Rightarrow> recvEvent list" where
  "handled process msgs = concat (map (\<lambda>msg. ProcessReceivedMessage msg # process msg) msgs)"

section \<open>Properties\<close>

subsection \<open>Traces\<close>

lemma onConnectFailedCalls_simps [simp]:
  "onConnectFailedCalls [] = []"
  "onConnectFailedCalls (OnConnectFailed e # evs) = e # onConnectFailedCalls evs"
  "onConnectFailedCalls (DialContext u # evs) = onConnectFailedCalls evs"
  "onConnectFailedCalls (Errorf s # evs) = onConnectFailedCalls evs"
  "onConnectFailedCalls (Debugf s # evs) = onConnectFailedCalls evs"
  "onConnectFailedCalls (OnConnect # evs) = onConnectFailedCalls evs"
  "onConnectFailedCalls (CheckRedirectCalled r q v # evs) = onConnectFailedCalls evs"
  "onConnectFailedCalls (xs @ ys) = onConnectFailedCalls xs @ onConnectFailedCalls ys"
  by (simp_all add: onConnectFailedCalls_def)

lemma dialedURLs_simps [simp]:
  "dialedURLs [] = []"
  "dialedURLs (DialContext u # evs) = u # dialedURLs evs"
  "dialedURLs (OnConnectFailed e # evs) = dialedURLs evs"
  "dialedURLs (Errorf s # evs) = dialedURLs evs"
  "dialedURLs (Debugf s # evs) = dialedURLs evs"
  "dialedURLs (OnConnect # evs) = dialedURLs evs"
  "dialedURLs (CheckRedirectCalled r q v # evs) = dialedURLs evs"
  "dialedURLs (xs @ ys) = dialedURLs xs @ dialedURLs ys"
  by (simp_all add: dialedURLs_def)

lemma checkRedirectCalls_simps [simp]:
  "checkRedirectCalls [] = []"
  "checkRedirectCalls (CheckRedirectCalled r q v # evs) = v # checkRedirectCalls evs"
  "checkRedirectCalls (DialContext u # evs) = checkRedirectCalls evs"
  "checkRedirectCalls (OnConnectFailed e # evs) = checkRedirectCalls evs"
  "checkRedirectCalls (Errorf s # evs) = checkRedirectCalls evs"
  "checkRedirectCalls (Debugf s # evs) = checkRedirectCalls evs"
  "checkRedirectCalls (OnConnect # evs) = checkRedirectCalls evs"
  "checkRedirectCalls (xs @ ys) = checkRedirectCalls xs @ checkRedirectCalls ys"
  by (simp_all add: checkRedirectCalls_def)

subsection \<open>Redirects and single attempts\<close>

lemma handleRedirect_no_OnConnectFailed:
  "handleRedirect c resp = (r, c', evs) \<Longrightarrow> onConnectFailedCalls evs = []"
  by (auto simp: handleRedirect_def Let_def split: sum.splits option.splits)

lemma handleRedirect_no_dial:
  "handleRedirect c resp = (r, c', evs) \<Longrightarrow> dialedURLs evs = []"
  by (auto simp: handleRedirect_def Let_def split: sum.splits option.splits)

lemma handleRedirect_responseChain:
  "handleRedirect c resp = (r, c', evs) \<Longrightarrow> responseChain c' = responseChain c @ [resp]"
  by (auto simp: handleRedirect_def Let_def split: sum.splits option.splits)

lemma tryConnectOnce_dials_url:
  "dialedURLs (snd (snd (tryConnectOnce att c))) = [url c]"
  by (auto simp: tryConnectOnce_def tryConnectOnce_body_def tryConnectOnce_deferred_def Let_def
           split: option.splits prod.splits dialResult.splits dest: handleRedirect_no_dial)

lemma tryConnectOnce_success:
  "dial att = DialOk k \<Longrightarrow>
     tryConnectOnce att c = ((noDuration, None), c\<lparr>conn := Some k\<rparr>, [DialContext (url c), OnConnect])"
  by (simp add: tryConnectOnce_def tryConnectOnce_body_def tryConnectOnce_deferred_def)

lemma tryConnectOnce_failure_clears:
  assumes "dial att = DialErr err respOpt"
      and "respOpt = None \<or> (\<exists>resp. respOpt = Some resp \<and> \<not> (300 \<le> StatusCode resp \<and> StatusCode resp < 400))"
  shows "responseChain (fst (snd (tryConnectOnce att c))) = []"
  using assms
  by (auto simp: tryConnectOnce_def tryConnectOnce_body_def tryConnectOnce_deferred_def Let_def)

lemma tryConnectOnce_redirect_appends:
  assumes "dial att = DialErr err (Some resp)"
      and "300 \<le> StatusCode resp" and "StatusCode resp < 400"
  shows "responseChain (fst (snd (tryConnectOnce att c))) = responseChain c @ [resp]"
  using assms
  by (auto simp: tryConnectOnce_def tryConnectOnce_body_def tryConnectOnce_deferred_def Let_def
           split: option.splits prod.splits dest: handleRedirect_responseChain)

text \<open>
  Claim C5. When \<^verbatim>\<open>handleRedirect\<close> handles a response with a valid Location and the
  \<^verbatim>\<open>CheckRedirect\<close> callback, if there is one, accepts, it returns no error and replaces
  the client's URL by the Location, with the scheme \<^verbatim>\<open>http\<close> rewritten to \<^verbatim>\<open>ws\<close> and
  \<^verbatim>\<open>https\<close> to \<^verbatim>\<open>wss\<close>. A connection attempt that fails with such a 3xx response leaves
  the client with that URL, and the next attempt, whatever its environment, dials it and
  nothing else.
\<close>

theorem redirect_followed_rewrites_scheme:
  assumes "Location resp = Inr loc"
      and "case CheckRedirect c of
             None \<Rightarrow> True
           | Some f \<Rightarrow> f ((Request resp)\<lparr>URL := loc\<rparr>) (viaReq (responseChain c @ [resp]))
                        (responseChain c @ [resp]) = None"
      and "300 \<le> StatusCode resp" and "StatusCode resp < 400"
      and "dial att = DialErr err (Some resp)"
  shows "\<exists>c1 evs. handleRedirect c resp = (None, c1, evs) \<and>
           url c1 = loc\<lparr>Scheme := (if Scheme loc = ''http'' then ''ws''
                                    else if Scheme loc = ''https'' then ''wss''
                                    else Scheme loc)\<rparr> \<and>
           url (fst (snd (tryConnectOnce att c))) = url c1 \<and>
           (\<forall>att'. dialedURLs (snd (snd (tryConnectOnce att' (fst (snd (tryConnectOnce att c)))))) = [url c1])"
proof -
  let ?new = "loc\<lparr>Scheme := (if Scheme loc = ''http'' then ''ws''
                             else if Scheme loc = ''https'' then ''wss'' else Scheme loc)\<rparr>"
  let ?c1 = "c\<lparr>responseChain := responseChain c @ [resp], url := ?new\<rparr>"
  have rw: "rewriteScheme loc = ?new"
    by (simp add: rewriteScheme_def)
  obtain evs where h: "handleRedirect c resp = (None, ?c1, evs)"
    using assms(1,2) by (auto simp: handleRedirect_def Let_def rw split: option.splits)
  have t: "fst (snd (tryConnectOnce att c)) = ?c1"
    using assms(3,4,5) h
    by (simp add: tryConnectOnce_def tryConnectOnce_body_def tryConnectOnce_deferred_def Let_def)
  show ?thesis
    using h t by (simp add: tryConnectOnce_dials_url)
qed

theorem redirect_followed_rewrites_scheme_witness:
  "\<exists>c1 evs. handleRedirect ((NewWebSocket ())\<lparr>url := \<lparr>Scheme = ''ws'', Host = ''host1'', Path = ''/''\<rparr>\<rparr>)
       \<lparr>StatusCode = 307, Location = Inr \<lparr>Scheme = ''https'', Host = ''host2'', Path = ''/a''\<rparr>,
        Request = \<lparr>URL = \<lparr>Scheme = ''ws'', Host = ''host1'', Path = ''/''\<rparr>, reqId = 0\<rparr>,
        RetryAfterHeader = noDuration\<rparr> = (None, c1, evs) \<and>
     url c1 = \<lparr>Scheme = ''wss'', Host = ''host2'', Path = ''/a''\<rparr>"
proof -
  let ?c = "(NewWebSocket ())\<lparr>url := \<lparr>Scheme = ''ws'', Host = ''host1'', Path = ''/''\<rparr>\<rparr>"
  let ?loc = "\<lparr>Scheme = ''https'', Host = ''host2'', Path = ''/a''\<rparr>"
  let ?r = "\<lparr>StatusCode = 307, Location = Inr ?loc,
             Request = \<lparr>URL = \<lparr>Scheme = ''ws'', Host = ''host1'', Path = ''/''\<rparr>, reqId = 0\<rparr>,
             RetryAfterHeader = noDuration\<rparr>"
  let ?a = "\<lparr>dial = DialErr (DialFailure 7) (Some ?r), stoppingAfterDial = False, stoppingAtExit = False\<rparr>"
  have l: "Location ?r = Inr ?loc" by simp
  have ok: "case CheckRedirect ?c of
              None \<Rightarrow> True
            | Some f \<Rightarrow> f ((Request ?r)\<lparr>URL := ?loc\<rparr>) (viaReq (responseChain ?c @ [?r]))
                         (responseChain ?c @ [?r]) = None"
    by (simp add: NewWebSocket_def)
  have s1: "300 \<le> StatusCode ?r" and s2: "StatusCode ?r < 400" by simp_all
  have d: "dial ?a = DialErr (DialFailure 7) (Some ?r)" by simp
  from redirect_followed_rewrites_scheme [OF l ok s1 s2 d]
  show ?thesis by auto
qed

text \<open>
  Claim C10. When the dial fails and both reads of \<^verbatim>\<open>IsStopping()\<close> return false:
  with no response, or a response whose status is not 3xx, \<^verbatim>\<open>OnConnectFailed\<close> is called
  exactly twice, both times with the dial error (once after the dial, once by the
  deferred function); with a 3xx response, whatever \<^verbatim>\<open>handleRedirect\<close> returns, it is
  called exactly once.
\<close>

theorem tryConnectOnce_OnConnectFailed_twice:
  assumes "dial att = DialErr err respOpt"
      and "\<not> stoppingAfterDial att" and "\<not> stoppingAtExit att"
  shows "((respOpt = None \<or>
           (\<exists>resp. respOpt = Some resp \<and> \<not> (300 \<le> StatusCode resp \<and> StatusCode resp < 400)))
            \<longrightarrow> onConnectFailedCalls (snd (snd (tryConnectOnce att c))) = [err, err]) \<and>
         ((\<exists>resp. respOpt = Some resp \<and> 300 \<le> StatusCode resp \<and> StatusCode resp < 400)
            \<longrightarrow> onConnectFailedCalls (snd (snd (tryConnectOnce att c))) = [err])"
  using assms
  by (auto simp: tryConnectOnce_def tryConnectOnce_body_def tryConnectOnce_deferred_def Let_def
           split: option.splits prod.splits dest: handleRedirect_no_OnConnectFailed)

theorem tryConnectOnce_OnConnectFailed_twice_witness:
  "onConnectFailedCalls (snd (snd (tryConnectOnce
      \<lparr>dial = DialErr (DialFailure 7) None, stoppingAfterDial = False, stoppingAtExit = False\<rparr>
      (NewWebSocket ())))) = [DialFailure 7, DialFailure 7] \<and>
   onConnectFailedCalls (snd (snd (tryConnectOnce
      \<lparr>dial = DialErr (DialFailure 7)
                (Some \<lparr>StatusCode = 307, Location = Inl ErrNoLocation,
                       Request = \<lparr>URL = \<lparr>Scheme = ''ws'', Host = ''host1'', Path = ''/''\<rparr>, reqId = 0\<rparr>,
                       RetryAfterHeader = noDuration\<rparr>),
        stoppingAfterDial = False, stoppingAtExit = False\<rparr>
      (NewWebSocket ())))) = [DialFailure 7]"
proof -
  let ?a1 = "\<lparr>dial = DialErr (DialFailure 7) None, stoppingAfterDial = False, stoppingAtExit = False\<rparr>"
  let ?r = "\<lparr>StatusCode = 307, Location = Inl ErrNoLocation,
             Request = \<lparr>URL = \<lparr>Scheme = ''ws'', Host = ''host1'', Path = ''/''\<rparr>, reqId = 0\<rparr>,
             RetryAfterHeader = noDuration\<rparr>"
  let ?a2 = "\<lparr>dial = DialErr (DialFailure 7) (Some ?r), stoppingAfterDial = False, stoppingAtExit = False\<rparr>"
  have 1: "onConnectFailedCalls (snd (snd (tryConnectOnce ?a1 (NewWebSocket ())))) = [DialFailure 7, DialFailure 7]"
    using tryConnectOnce_OnConnectFailed_twice [of ?a1 "DialFailure 7" None "NewWebSocket ()"]
    by simp
  have 2: "onConnectFailedCalls (snd (snd (tryConnectOnce ?a2 (NewWebSocket ())))) = [DialFailure 7]"
    using tryConnectOnce_OnConnectFailed_twice [of ?a2 "DialFailure 7" "Some ?r" "NewWebSocket ()"]
    by simp
  show ?thesis using 1 2 by simp
qed

subsection \<open>The waits of the connect loop\<close>

text \<open>
  The retry-after hint an attempt returns depends on the dial outcome alone.
\<close>

lemma tryConnectOnce_retryAfter:
  "fst (fst (tryConnectOnce att c)) =
     (case dial att of
        DialErr err (Some resp) \<Rightarrow> ExtractRetryAfterHeader resp
      | _ \<Rightarrow> noDuration)"
  by (auto simp: tryConnectOnce_def tryConnectOnce_body_def tryConnectOnce_deferred_def Let_def
           split: option.splits prod.splits dialResult.splits)

lemma ensureConnected_loop_waits:
  "ensureConnected_loop nb k interval ts c = (r, c', evs, its) \<Longrightarrow>
     its \<noteq> [] \<and> wait (hd its) = interval \<and>
     (\<forall>i. Suc i < length its \<longrightarrow>
        (\<exists>ra e att. outcome (its ! i) = Tried ra (Some e) \<and> \<not> errors_Is_Canceled e \<and>
                i < length ts \<and> ts ! i = TimerFired att \<and>
                (\<forall>x::'c wsClient. fst (fst (tryConnectOnce att x)) = ra) \<and>
                backoff (its ! i) = nb (k + i) \<and>
                wait (its ! Suc i) =
                  (if Defined ra then max (nb (k + i)) (Duration ra) else nb (k + i))))"
proof (induction ts arbitrary: k interval c r c' evs its)
  case Nil
  then show ?case by auto
next
  case (Cons t ts)
  show ?case
  proof (cases t)
    case (CtxDone e)
    with Cons.prems show ?thesis by auto
  next
    case (TimerFired att)
    obtain ra err c1 evs1 where tc: "tryConnectOnce att c = ((ra, err), c1, evs1)"
      by (metis prod.exhaust)
    show ?thesis
    proof (cases err)
      case None
      with Cons.prems TimerFired tc show ?thesis by auto
    next
      case (Some e)
      show ?thesis
      proof (cases "errors_Is_Canceled e")
        case True
        with Cons.prems TimerFired tc Some show ?thesis by (auto simp: Let_def)
      next
        case False
        let ?i2 = "if Defined ra \<and> Duration ra > nb k then Duration ra else nb k"
        let ?c2 = "c1\<lparr>lastInternalErr := Some e\<rparr>"
        obtain r2 c3 evs2 its2 where
          rec: "ensureConnected_loop nb (Suc k) ?i2 ts ?c2 = (r2, c3, evs2, its2)"
          by (metis prod.exhaust)
        have its: "its = \<lparr>wait = interval, backoff = nb k, outcome = Tried ra (Some e)\<rparr> # its2"
          using Cons.prems TimerFired tc Some False rec by (simp add: Let_def)
        note IH = Cons.IH [OF rec]
        have hd2: "its2 \<noteq> []" "wait (hd its2) = ?i2" using IH by auto
        have w0: "wait (its2 ! 0) = (if Defined ra then max (nb k) (Duration ra) else nb k)"
          using hd2 by (cases its2) (auto simp: max_def)
        show ?thesis
        proof (intro conjI allI impI)
          show "its \<noteq> []" using its by simp
          show "wait (hd its) = interval" using its by simp
        next
          fix i assume lt: "Suc i < length its"
          show "\<exists>ra e att'. outcome (its ! i) = Tried ra (Some e) \<and> \<not> errors_Is_Canceled e \<and>
                  i < length (t # ts) \<and> (t # ts) ! i = TimerFired att' \<and>
                  (\<forall>x::'c wsClient. fst (fst (tryConnectOnce att' x)) = ra) \<and>
                  backoff (its ! i) = nb (k + i) \<and>
                  wait (its ! Suc i) =
                    (if Defined ra then max (nb (k + i)) (Duration ra) else nb (k + i))"
          proof (cases i)
            case 0
            have "\<forall>x::'c wsClient. fst (fst (tryConnectOnce att x)) = ra"
              using tc tryConnectOnce_retryAfter [of att c]
              by (simp add: tryConnectOnce_retryAfter)
            then show ?thesis using 0 its w0 False TimerFired by simp
          next
            case (Suc j)
            then have "Suc j < length its2" using lt its by simp
            with IH obtain ra' e' att' where
              "outcome (its2 ! j) = Tried ra' (Some e')" "\<not> errors_Is_Canceled e'"
              "j < length ts" "ts ! j = TimerFired att'"
              "\<forall>x::'c wsClient. fst (fst (tryConnectOnce att' x)) = ra'"
              "backoff (its2 ! j) = nb (Suc k + j)"
              "wait (its2 ! Suc j) =
                 (if Defined ra' then max (nb (Suc k + j)) (Duration ra') else nb (Suc k + j))"
              by blast
            then show ?thesis using its Suc by simp
          qed
        qed
      qed
    qed
  qed
qed


text \<open>
  Claim C3. In \<^verbatim>\<open>ensureConnected\<close> the timer of the first iteration is created with
  duration zero. Every iteration that is followed by another one made an attempt that
  failed, and the timer of the following iteration is created with the value
  \<^verbatim>\<open>NextBackOff()\<close> returned in between when the attempt returned no retry-after hint,
  and with the maximum of that value and the hint when the hint is defined.
\<close>

theorem ensureConnected_waits:
  assumes "ensureConnected nb ts c = (r, c', evs, its)"
  shows "its \<noteq> [] \<and> wait (hd its) = 0 \<and>
         (\<forall>i. Suc i < length its \<longrightarrow>
            (\<exists>ra e att. i < length ts \<and> ts ! i = TimerFired att \<and>
                    (\<forall>x::'c wsClient. fst (fst (tryConnectOnce att x)) = ra) \<and>
                    outcome (its ! i) = Tried ra (Some e) \<and>
                    wait (its ! Suc i) =
                      (if Defined ra then max (nb i) (Duration ra) else nb i)))"
proof -
  from assms have "ensureConnected_loop nb 0 0 ts c = (r, c', evs, its)"
    by (simp add: ensureConnected_def)
  from ensureConnected_loop_waits [OF this] show ?thesis
    by (metis add_0)
qed

theorem ensureConnected_waits_witness:
  "\<exists>r c' evs its.
     ensureConnected (\<lambda>k. 500 + int k)
       [TimerFired \<lparr>dial = DialErr (DialFailure 1)
                       (Some \<lparr>StatusCode = 503, Location = Inl ErrNoLocation,
                              Request = \<lparr>URL = \<lparr>Scheme = ''ws'', Host = ''host1'', Path = ''/''\<rparr>, reqId = 0\<rparr>,
                              RetryAfterHeader = \<lparr>Duration = 10000, Defined = True\<rparr>\<rparr>),
                    stoppingAfterDial = False, stoppingAtExit = False\<rparr>,
        TimerFired \<lparr>dial = DialErr (DialFailure 2) None,
                    stoppingAfterDial = False, stoppingAtExit = False\<rparr>,
        TimerFired \<lparr>dial = DialOk 3, stoppingAfterDial = False, stoppingAtExit = False\<rparr>]
       (NewWebSocket ()) = (r, c', evs, its) \<and>
     r = Some None \<and> map wait its = [0, 10000, 501]"
proof -
  let ?nb = "\<lambda>k. 500 + int k"
  let ?ts = "[TimerFired \<lparr>dial = DialErr (DialFailure 1)
                       (Some \<lparr>StatusCode = 503, Location = Inl ErrNoLocation,
                              Request = \<lparr>URL = \<lparr>Scheme = ''ws'', Host = ''host1'', Path = ''/''\<rparr>, reqId = 0\<rparr>,
                              RetryAfterHeader = \<lparr>Duration = 10000, Defined = True\<rparr>\<rparr>),
                    stoppingAfterDial = False, stoppingAtExit = False\<rparr>,
        TimerFired \<lparr>dial = DialErr (DialFailure 2) None,
                    stoppingAfterDial = False, stoppingAtExit = False\<rparr>,
        TimerFired \<lparr>dial = DialOk 3, stoppingAfterDial = False, stoppingAtExit = False\<rparr>]"
  obtain r c' evs its where h: "ensureConnected ?nb ?ts (NewWebSocket ()) = (r, c', evs, its)"
    by (metis prod.exhaust)
  have r: "r = Some None" and len: "length its = 3"
    and o0: "outcome (its ! 0) = Tried \<lparr>Duration = 10000, Defined = True\<rparr> (Some (DialFailure 1))"
    and o1: "outcome (its ! 1) = Tried noDuration (Some (DialFailure 2))"
    using h
    by (auto simp: ensureConnected_def tryConnectOnce_def tryConnectOnce_body_def
          tryConnectOnce_deferred_def ExtractRetryAfterHeader_def Let_def)
  from len obtain a b d where its: "its = [a, b, d]"
    by (auto simp: numeral_3_eq_3 length_Suc_conv)
  note w = ensureConnected_waits [OF h]
  from w have "wait (hd its) = 0" by blast
  then have w0: "wait a = 0" using its by simp
  from w have step: "\<And>i. Suc i < length its \<Longrightarrow>
      \<exists>ra e. outcome (its ! i) = Tried ra (Some e) \<and>
        wait (its ! Suc i) = (if Defined ra then max (500 + int i) (Duration ra) else 500 + int i)"
    by blast
  from step [of 0] its o0 have w1: "wait b = 10000" by auto
  from step [of 1] its o1 have w2: "wait d = 501" by (auto simp: noDuration_def)
  from w0 w1 w2 r h its show ?thesis by simp
qed

subsection \<open>The response chain\<close>

lemma handleRedirect_checkRedirectCalls:
  "checkRedirectCalls (snd (snd (handleRedirect c resp))) =
     (case (Location resp, CheckRedirect c) of
        (Inr loc, Some f) \<Rightarrow> [responseChain c @ [resp]]
      | _ \<Rightarrow> [])"
  by (auto simp: handleRedirect_def Let_def split: sum.splits option.splits)

lemma tryConnectOnce_redirect_checkRedirectCalls:
  assumes "dial att = DialErr err (Some resp)"
      and "300 \<le> StatusCode resp" and "StatusCode resp < 400"
  shows "checkRedirectCalls (snd (snd (tryConnectOnce att c))) =
     (case (Location resp, CheckRedirect c) of
        (Inr loc, Some f) \<Rightarrow> [responseChain c @ [resp]]
      | _ \<Rightarrow> [])"
proof -
  obtain r c1 evs where h: "handleRedirect c resp = (r, c1, evs)"
    by (metis prod.exhaust)
  have "checkRedirectCalls (snd (snd (tryConnectOnce att c))) = checkRedirectCalls evs"
    using assms h
    by (auto simp: tryConnectOnce_def tryConnectOnce_body_def tryConnectOnce_deferred_def Let_def
             split: option.splits)
  with handleRedirect_checkRedirectCalls [of c resp] h show ?thesis by simp
qed

text \<open>
  Claim C2. The response chain is to be cleared on a successful connection as well as on
  a failure that is not a redirect, and appended to only when a redirect is handled. The
  two latter hold (\<open>tryConnectOnce_failure_clears\<close>, \<open>tryConnectOnce_redirect_appends\<close>,
  \<open>tryConnectOnce_success\<close>), the first does not: a successful attempt changes \<open>conn\<close>
  alone. Here a new client is redirected once and then connects: the chain still holds
  the redirect response after the successful attempt.
\<close>

theorem tryConnectOnce_success_keeps_responseChain:
  "let r1 = \<lparr>StatusCode = 307, Location = Inr \<lparr>Scheme = ''http'', Host = ''host2'', Path = ''/a''\<rparr>,
             Request = \<lparr>URL = \<lparr>Scheme = ''ws'', Host = ''host1'', Path = ''/''\<rparr>, reqId = 0\<rparr>,
             RetryAfterHeader = noDuration\<rparr>;
       c0 = (NewWebSocket ())\<lparr>url := \<lparr>Scheme = ''ws'', Host = ''host1'', Path = ''/''\<rparr>\<rparr>;
       c1 = fst (snd (tryConnectOnce
              \<lparr>dial = DialErr (DialFailure 0) (Some r1),
               stoppingAfterDial = False, stoppingAtExit = False\<rparr> c0));
       c2 = fst (snd (tryConnectOnce
              \<lparr>dial = DialOk 1, stoppingAfterDial = False, stoppingAtExit = False\<rparr> c1))
   in responseChain c0 = [] \<and> responseChain c1 = [r1] \<and>
      conn c2 = Some 1 \<and> responseChain c2 = [r1] \<and> responseChain c2 \<noteq> []"
  by (simp add: Let_def tryConnectOnce_def tryConnectOnce_body_def tryConnectOnce_deferred_def
        handleRedirect_def NewWebSocket_def rewriteScheme_def)

text \<open>
  Claim C6. \<^verbatim>\<open>CheckRedirect\<close> is handed the chain as it stood before the attempt followed
  by the response of the attempt (\<open>tryConnectOnce_redirect_checkRedirectCalls\<close>), so the
  N-th redirect of a run sees exactly the N responses of the run only if the chain was
  empty when the run began. A successful connection leaves the chain as it is, so a
  client that was redirected once, connected, and later connects again, passes two
  responses to \<^verbatim>\<open>CheckRedirect\<close> at the first redirect of the second run.
\<close>

theorem checkRedirect_sees_stale_chain:
  "let r1 = \<lparr>StatusCode = 307, Location = Inr \<lparr>Scheme = ''http'', Host = ''host2'', Path = ''/a''\<rparr>,
             Request = \<lparr>URL = \<lparr>Scheme = ''ws'', Host = ''host1'', Path = ''/''\<rparr>, reqId = 0\<rparr>,
             RetryAfterHeader = noDuration\<rparr>;
       r2 = \<lparr>StatusCode = 308, Location = Inr \<lparr>Scheme = ''https'', Host = ''host3'', Path = ''/b''\<rparr>,
             Request = \<lparr>URL = \<lparr>Scheme = ''ws'', Host = ''host2'', Path = ''/a''\<rparr>, reqId = 1\<rparr>,
             RetryAfterHeader = noDuration\<rparr>;
       quiet = (\<lambda>d. \<lparr>dial = d, stoppingAfterDial = False, stoppingAtExit = False\<rparr>);
       c0 = (NewWebSocket ())\<lparr>CheckRedirect := Some (\<lambda>req reqs resps. None),
                              url := \<lparr>Scheme = ''ws'', Host = ''host1'', Path = ''/''\<rparr>\<rparr>;
       first = ensureConnected (\<lambda>k. 500)
                 [TimerFired (quiet (DialErr (DialFailure 0) (Some r1))),
                  TimerFired (quiet (DialOk 1))] c0;
       c1 = fst (snd first);
       second = ensureConnected (\<lambda>k. 500)
                 [TimerFired (quiet (DialErr (DialFailure 0) (Some r2)))] c1
   in fst first = Some None \<and>
      checkRedirectCalls (fst (snd (snd first))) = [[r1]] \<and>
      checkRedirectCalls (fst (snd (snd second))) = [[r1, r2]]"
  by (simp add: Let_def ensureConnected_def tryConnectOnce_def tryConnectOnce_body_def
        tryConnectOnce_deferred_def handleRedirect_def NewWebSocket_def rewriteScheme_def
        ExtractRetryAfterHeader_def)

subsection \<open>The receiver loop\<close>

lemma delivers_Frame:
  "delivers decode t \<Longrightarrow> \<exists>rd msg. t = ReadReturned rd \<and> receiveMessage decode rd = Inr msg"
  by (auto simp: delivers_def split: turn.splits sum.splits)

lemma ReceiverLoop_delivering:
  "\<forall>t \<in> set pre. delivers decode t \<Longrightarrow>
     ReceiverLoop decode process (pre @ rest) =
       (fst (ReceiverLoop decode process rest),
        handled process (delivered decode pre) @ snd (ReceiverLoop decode process rest))"
proof (induction pre)
  case Nil
  then show ?case by (simp add: handled_def delivered_def)
next
  case (Cons t pre)
  then obtain rd msg where t: "t = ReadReturned rd" "receiveMessage decode rd = Inr msg"
    using delivers_Frame by (metis list.set_intros(1))
  from Cons have "ReceiverLoop decode process (pre @ rest) =
       (fst (ReceiverLoop decode process rest),
        handled process (delivered decode pre) @ snd (ReceiverLoop decode process rest))"
    by simp
  then show ?case using t by (simp add: handled_def delivered_def)
qed

text \<open>
  Claim C7. As long as every turn delivers a message the receiver loop has not returned,
  and it has handed each message to the processor, in order. It returns at the first
  turn that does not: when its context is done, before or during a read, logging
  nothing; when the read or the decoding fails, logging the error unless it is a close
  error with the code of a normal closure. The turns after that one have no effect: no
  further message is processed.
\<close>

theorem ReceiverLoop_terminates_exactly:
  assumes "\<forall>t \<in> set pre. delivers decode t"
  shows "ReceiverLoop decode process pre = (False, handled process (delivered decode pre)) \<and>
         ReceiverLoop decode process (pre @ DoneBeforeRead # post) =
           (True, handled process (delivered decode pre) @ [CloseStoppedChan]) \<and>
         ReceiverLoop decode process (pre @ DoneWhileReading # post) =
           (True, handled process (delivered decode pre) @ [CloseStoppedChan]) \<and>
         (\<forall>rd err. receiveMessage decode rd = Inl err \<longrightarrow>
            ReceiverLoop decode process (pre @ ReadReturned rd # post) =
              (True, handled process (delivered decode pre) @
                     (if err = CloseError 1000 then [] else [ReceiveErrorf err]) @
                     [CloseStoppedChan]))"
proof -
  have a: "ReceiverLoop decode process pre = (False, handled process (delivered decode pre))"
    using ReceiverLoop_delivering [OF assms, of process "[]"] by simp
  have b: "ReceiverLoop decode process (pre @ DoneBeforeRead # post) =
           (True, handled process (delivered decode pre) @ [CloseStoppedChan])"
    using ReceiverLoop_delivering [OF assms, of process "DoneBeforeRead # post"] by simp
  have c: "ReceiverLoop decode process (pre @ DoneWhileReading # post) =
           (True, handled process (delivered decode pre) @ [CloseStoppedChan])"
    using ReceiverLoop_delivering [OF assms, of process "DoneWhileReading # post"] by simp
  have d: "receiveMessage decode rd = Inl err \<Longrightarrow>
            ReceiverLoop decode process (pre @ ReadReturned rd # post) =
              (True, handled process (delivered decode pre) @
                     (if err = CloseError 1000 then [] else [ReceiveErrorf err]) @
                     [CloseStoppedChan])" for rd err
    using ReceiverLoop_delivering [OF assms, of process "ReadReturned rd # post"]
    by (cases err) (auto simp: IsCloseError_def CloseNormalClosure_def)
  from a b c d show ?thesis by blast
qed

theorem ReceiverLoop_terminates_exactly_witness:
  "ReceiverLoop (\<lambda>bytes. Inr \<lparr>Flags = 0, payload = length bytes\<rparr>) (\<lambda>msg. [])
     [ReadReturned (Frame [1, 2]), ReadReturned (ReadErr (CloseError 1000)),
      ReadReturned (Frame [3])] =
     (True, [ProcessReceivedMessage \<lparr>Flags = 0, payload = 2\<rparr>, CloseStoppedChan]) \<and>
   ReceiverLoop (\<lambda>bytes. Inr \<lparr>Flags = 0, payload = length bytes\<rparr>) (\<lambda>msg. [])
     [ReadReturned (Frame [1, 2]), ReadReturned (ReadErr (ReadFailure 9)),
      ReadReturned (Frame [3])] =
     (True, [ProcessReceivedMessage \<lparr>Flags = 0, payload = 2\<rparr>, ReceiveErrorf (ReadFailure 9),
             CloseStoppedChan])"
proof -
  let ?dec = "\<lambda>bytes::nat list. (Inr \<lparr>Flags = 0, payload = length bytes\<rparr> :: error + ServerToAgent)"
  let ?pre = "[ReadReturned (Frame [1, 2])]"
  have p: "\<forall>t \<in> set ?pre. delivers ?dec t"
    by (simp add: delivers_def receiveMessage_def)
  have e1: "receiveMessage ?dec (ReadErr (CloseError 1000)) = Inl (CloseError 1000)"
    and e2: "receiveMessage ?dec (ReadErr (ReadFailure 9)) = Inl (ReadFailure 9)"
    by (simp_all add: receiveMessage_def)
  note t = ReceiverLoop_terminates_exactly [OF p, of "\<lambda>msg. []" "[ReadReturned (Frame [3])]"]
  from t e1 have 1: "ReceiverLoop ?dec (\<lambda>msg. []) (?pre @ ReadReturned (ReadErr (CloseError 1000)) # [ReadReturned (Frame [3])]) =
      (True, handled (\<lambda>msg. []) (delivered ?dec ?pre) @
             (if CloseError 1000 = CloseError 1000 then [] else [ReceiveErrorf (CloseError 1000)]) @
             [CloseStoppedChan])"
    by blast
  from t e2 have 2: "ReceiverLoop ?dec (\<lambda>msg. []) (?pre @ ReadReturned (ReadErr (ReadFailure 9)) # [ReadReturned (Frame [3])]) =
      (True, handled (\<lambda>msg. []) (delivered ?dec ?pre) @
             (if ReadFailure 9 = CloseError 1000 then [] else [ReceiveErrorf (ReadFailure 9)]) @
             [CloseStoppedChan])"
    by blast
  have h: "handled (\<lambda>msg. []) (delivered ?dec ?pre) = [ProcessReceivedMessage \<lparr>Flags = 0, payload = 2\<rparr>]"
    by (simp add: handled_def delivered_def receiveMessage_def)
  from 1 2 h show ?thesis by simp
qed

subsection \<open>The restart flag\<close>

lemma count_list_Dispatched:
  "count_list (map Dispatched xs) OnRestartRequested = 0"
  by (induction xs) auto

text \<open>
  Claim C8. For a message whose \<^verbatim>\<open>RequestRestart\<close> bit is set the processor calls
  \<^verbatim>\<open>OnRestartRequested\<close> exactly once; an error the callback returns is logged, and the
  receiver loop goes on with the turns that follow. For a message whose flags are zero
  the callback is not called.
\<close>

theorem processReceivedMessage_restart:
  "(and (Flags msg) requestRestart \<noteq> 0 \<longrightarrow>
      count_list (processReceivedMessage requestRestart cb others msg) OnRestartRequested = 1 \<and>
      (\<forall>err. cb = Some err \<longrightarrow>
         CallbackErrorf err \<in> set (processReceivedMessage requestRestart cb others msg)) \<and>
      (\<forall>decode bytes ts. decode bytes = Inr msg \<longrightarrow>
         ReceiverLoop decode (processReceivedMessage requestRestart cb others)
           (ReadReturned (Frame bytes) # ts) =
         (fst (ReceiverLoop decode (processReceivedMessage requestRestart cb others) ts),
          ProcessReceivedMessage msg # processReceivedMessage requestRestart cb others msg @
          snd (ReceiverLoop decode (processReceivedMessage requestRestart cb others) ts)))) \<and>
   (Flags msg = 0 \<longrightarrow>
      count_list (processReceivedMessage requestRestart cb others msg) OnRestartRequested = 0)"
  by (auto simp: processReceivedMessage_def count_list_Dispatched receiveMessage_def
           split: option.splits prod.splits)

theorem processReceivedMessage_restart_witness:
  "count_list (processReceivedMessage 1 (Some (CallbackFailure 3)) (\<lambda>m. [])
                 \<lparr>Flags = 1, payload = 0\<rparr>) OnRestartRequested = 1 \<and>
   CallbackErrorf (CallbackFailure 3) \<in>
     set (processReceivedMessage 1 (Some (CallbackFailure 3)) (\<lambda>m. []) \<lparr>Flags = 1, payload = 0\<rparr>) \<and>
   count_list (processReceivedMessage 1 (Some (CallbackFailure 3)) (\<lambda>m. [])
                 \<lparr>Flags = 0, payload = 0\<rparr>) OnRestartRequested = 0"
proof -
  have f1: "and (Flags \<lparr>Flags = 1, payload = 0\<rparr>) (1::nat) \<noteq> 0" by simp
  have f0: "Flags \<lparr>Flags = 0, payload = 0\<rparr> = 0" by simp
  from processReceivedMessage_restart
         [of "\<lparr>Flags = 1, payload = 0\<rparr>" 1 "Some (CallbackFailure 3)" "\<lambda>m. []"] f1
  have a: "count_list (processReceivedMessage 1 (Some (CallbackFailure 3)) (\<lambda>m. [])
                 \<lparr>Flags = 1, payload = 0\<rparr>) OnRestartRequested = 1 \<and>
     CallbackErrorf (CallbackFailure 3) \<in>
       set (processReceivedMessage 1 (Some (CallbackFailure 3)) (\<lambda>m. []) \<lparr>Flags = 1, payload = 0\<rparr>)"
    by blast
  from processReceivedMessage_restart
         [of "\<lparr>Flags = 0, payload = 0\<rparr>" 1 "Some (CallbackFailure 3)" "\<lambda>m. []"] f0
  have b: "count_list (processReceivedMessage 1 (Some (CallbackFailure 3)) (\<lambda>m. [])
                 \<lparr>Flags = 0, payload = 0\<rparr>) OnRestartRequested = 0"
    by blast
  from a b show ?thesis by blast
qed

subsection \<open>Preparing a new client\<close>

text \<open>
  Claim C9. \<^verbatim>\<open>NewWebSocket\<close> leaves \<^verbatim>\<open>senders\<close> nil, and for settings with at least one
  agent \<^verbatim>\<open>PrepareStart\<close> on the new client ends in the panic of an assignment to an entry
  of a nil map, whatever the code of \<^verbatim>\<open>ClientCommon\<close> does.
\<close>

theorem PrepareStart_nil_senders:
  "senders (NewWebSocket com) = None \<and>
   (Agents settings \<noteq> [] \<longrightarrow>
      PrepareStart newSender register commonPrepareStart (NewWebSocket com) settings =
        Inl PanicAssignmentToNilMap)"
  by (cases "Agents settings") (auto simp: PrepareStart_def NewWebSocket_def)

theorem PrepareStart_nil_senders_witness:
  "PrepareStart (\<lambda>a. 0) (\<lambda>a s com. Inr com) (\<lambda>s com. (None, com)) (NewWebSocket ())
     \<lparr>OpAMPServerURL = ''ws://host1/'', Agents = [\<lparr>InstanceUid = 1, AgentDescription = 0\<rparr>]\<rparr> =
   Inl PanicAssignmentToNilMap"
proof -
  let ?s = "\<lparr>OpAMPServerURL = ''ws://host1/'', Agents = [\<lparr>InstanceUid = 1, AgentDescription = 0\<rparr>]\<rparr>"
  have ne: "Agents ?s \<noteq> []" by simp
  from PrepareStart_nil_senders [of "()" ?s "\<lambda>a. 0" "\<lambda>a s com. Inr com" "\<lambda>s com. (None, com)"] ne
  show ?thesis by blast
qed

subsection \<open>The shutdown coordinator\<close>

text \<open>
  Claim C4. Log lines apart, the coordinator does the following. When the sender stops
  first with a stopping error, it cancels the receiver's context at once and waits for
  the receiver to stop. When the sender stops first without error, it waits in a
  \<^verbatim>\<open>select\<close> for the receiver to stop or for \<^verbatim>\<open>connShutdownTimeout\<close> to elapse; if the
  receiver stopped in time it does nothing more, and on timeout it cancels the receiver's
  context and waits for the receiver to stop. When the receiver stops first, it cancels
  the sender's context and waits for the sender to stop.
\<close>

theorem coordinator_shutdown_order:
  "filter (\<lambda>e. \<not> isLog e) (coordinator c u SenderStopped (Some err) w) =
     [StopReceiver, AwaitReceiverStopped u] \<and>
   filter (\<lambda>e. \<not> isLog e) (coordinator c u SenderStopped None ReceiverStoppedInTime) =
     [SelectReceiverStoppedOrAfter u (connShutdownTimeout c)] \<and>
   filter (\<lambda>e. \<not> isLog e) (coordinator c u SenderStopped None TimeoutElapsed) =
     [SelectReceiverStoppedOrAfter u (connShutdownTimeout c), StopReceiver, AwaitReceiverStopped u] \<and>
   filter (\<lambda>e. \<not> isLog e) (coordinator c u ReceiverStopped stoppingErr w) =
     [StopSender, AwaitSenderStopped u]"
  by (simp add: coordinator_def)

subsection \<open>The lifetime of the connection\<close>

text \<open>
  The supervisor goroutine never receives from a \<^verbatim>\<open>IsStopped()\<close> channel: the only such
  receives are in the coordinator goroutines it spawns. A cycle that obtained a
  connection returns, and the last thing it does is to close that connection.
\<close>

lemma handleRedirect_no_await:
  "e \<in> set (snd (snd (handleRedirect c resp))) \<Longrightarrow> \<not> awaitsStop e"
  by (auto simp: handleRedirect_def Let_def split: sum.splits option.splits)

lemma tryConnectOnce_no_await:
  "e \<in> set (snd (snd (tryConnectOnce att c))) \<Longrightarrow> \<not> awaitsStop e"
proof -
  assume a: "e \<in> set (snd (snd (tryConnectOnce att c)))"
  have h: "\<And>resp r c1 evs. handleRedirect c resp = (r, c1, evs) \<Longrightarrow> e \<in> set evs \<Longrightarrow> \<not> awaitsStop e"
    using handleRedirect_no_await by (metis snd_conv)
  from a show ?thesis
    by (auto simp: tryConnectOnce_def tryConnectOnce_body_def tryConnectOnce_deferred_def Let_def
             split: option.splits prod.splits dialResult.splits if_splits dest: h)
qed

lemma ensureConnected_loop_no_await:
  "ensureConnected_loop nb k interval ts c = (r, c', evs, its) \<Longrightarrow> e \<in> set evs \<Longrightarrow> \<not> awaitsStop e"
proof (induction ts arbitrary: k interval c r c' evs its)
  case Nil
  then show ?case by simp
next
  case (Cons t ts)
  show ?case
  proof (cases t)
    case (CtxDone x)
    with Cons.prems show ?thesis by auto
  next
    case (TimerFired att)
    obtain ra err c1 evs1 where tc: "tryConnectOnce att c = ((ra, err), c1, evs1)"
      by (metis prod.exhaust)
    have e1: "\<And>x. x \<in> set evs1 \<Longrightarrow> \<not> awaitsStop x"
      using tryConnectOnce_no_await [of _ att c] tc by simp
    show ?thesis
    proof (cases err)
      case None
      with Cons.prems TimerFired tc e1 show ?thesis by auto
    next
      case (Some x)
      show ?thesis
      proof (cases "errors_Is_Canceled x")
        case True
        with Cons.prems TimerFired tc Some e1 show ?thesis by (auto simp: Let_def)
      next
        case False
        let ?i2 = "if Defined ra \<and> Duration ra > nb k then Duration ra else nb k"
        obtain r2 c3 evs2 its2 where
          rec: "ensureConnected_loop nb (Suc k) ?i2 ts (c1\<lparr>lastInternalErr := Some x\<rparr>) = (r2, c3, evs2, its2)"
          by (metis prod.exhaust)
        have "evs = evs1 @ Errorf ''Connection failed, will retry.'' # evs2"
          using Cons.prems(1) TimerFired tc Some False rec by (simp add: Let_def)
        with Cons.prems(2) e1 Cons.IH [OF rec] show ?thesis by auto
      qed
    qed
  qed
qed

lemma ensureConnected_loop_conn:
  "ensureConnected_loop nb k interval ts c = (Some None, c', evs, its) \<Longrightarrow> \<exists>h. conn c' = Some h"
proof (induction ts arbitrary: k interval c evs its)
  case Nil
  then show ?case by simp
next
  case (Cons t ts)
  show ?case
  proof (cases t)
    case (CtxDone x)
    with Cons.prems show ?thesis by auto
  next
    case (TimerFired att)
    obtain ra err c1 evs1 where tc: "tryConnectOnce att c = ((ra, err), c1, evs1)"
      by (metis prod.exhaust)
    show ?thesis
    proof (cases err)
      case None
      then obtain h where "dial att = DialOk h" "c1 = c\<lparr>conn := Some h\<rparr>"
        using tc
        by (auto simp: tryConnectOnce_def tryConnectOnce_body_def tryConnectOnce_deferred_def
              Let_def split: option.splits prod.splits dialResult.splits if_splits)
      with Cons.prems TimerFired tc None show ?thesis by auto
    next
      case (Some x)
      show ?thesis
      proof (cases "errors_Is_Canceled x")
        case True
        with Cons.prems TimerFired tc Some show ?thesis by (auto simp: Let_def)
      next
        case False
        let ?i2 = "if Defined ra \<and> Duration ra > nb k then Duration ra else nb k"
        obtain r2 c3 evs2 its2 where
          rec: "ensureConnected_loop nb (Suc k) ?i2 ts (c1\<lparr>lastInternalErr := Some x\<rparr>) = (r2, c3, evs2, its2)"
          by (metis prod.exhaust)
        have "r2 = Some None" "c3 = c'"
          using Cons.prems(1) TimerFired tc Some False rec by (simp_all add: Let_def)
        with Cons.IH rec show ?thesis by blast
      qed
    qed
  qed
qed

lemma startSenders_no_await:
  "e \<in> set (fst (startSenders res us)) \<Longrightarrow> \<not> awaitsStop e"
  by (induction us) (auto split: option.splits prod.splits)

lemma startReceivers_no_await:
  "e \<in> set (startReceivers us) \<Longrightarrow> \<not> awaitsStop e"
  by (auto simp: startReceivers_def)

lemma runOneCycle_never_awaits:
  "e \<in> set (snd (snd (runOneCycle nb env c))) \<Longrightarrow> \<not> awaitsStop e"
proof -
  assume a: "e \<in> set (snd (snd (runOneCycle nb env c)))"
  obtain r c1 evs its where h: "ensureConnected_loop nb 0 0 (ticks env) c = (r, c1, evs, its)"
    by (metis prod.exhaust)
  have e1: "\<And>x. x \<in> set evs \<Longrightarrow> \<not> awaitsStop x"
    using ensureConnected_loop_no_await [OF h] by blast
  have e2: "\<And>x res us started r. startSenders res us = (started, r) \<Longrightarrow> x \<in> set started \<Longrightarrow> \<not> awaitsStop x"
    using startSenders_no_await by (metis fst_conv)
  from a h show ?thesis
    by (auto simp: runOneCycle_def ensureConnected_def Let_def
             split: option.splits prod.splits if_splits
             dest: e1 e2 startReceivers_no_await)
qed

lemma runOneCycle_closes_conn:
  assumes "fst (ensureConnected nb (ticks env) c) = Some None"
  shows "\<exists>c1 evs h. runOneCycle nb env c = (True, c1, evs) \<and> conn c1 = Some h \<and>
           evs \<noteq> [] \<and> last evs = ConnClose (Some h)"
proof -
  obtain c1 evs its where h: "ensureConnected_loop nb 0 0 (ticks env) c = (Some None, c1, evs, its)"
    using assms by (metis ensureConnected_def fst_conv prod.exhaust)
  from ensureConnected_loop_conn [OF h] obtain k where k: "conn c1 = Some k" by blast
  from h k show ?thesis
    by (auto simp: runOneCycle_def ensureConnected_def Let_def split: option.splits prod.splits)
qed


text \<open>
  Claim C1. \<^verbatim>\<open>runOneCycle\<close> closes the socket when it returns, but it does not wait for
  the sender and the receiver: with one agent whose sender starts, the supervisor starts
  the receiver, spawns the coordinator and returns, cancelling both contexts and closing
  the connection. In the schedule in which the supervisor takes all its steps before the
  two goroutines take any, \<^verbatim>\<open>runOneCycle\<close> has returned and the connection is closed
  while the sender and the receiver are still running.
\<close>

theorem runOneCycle_returns_while_tasks_run:
  "let c0 = (NewWebSocket ())\<lparr>url := \<lparr>Scheme = ''ws'', Host = ''host1'', Path = ''/''\<rparr>,
                              senders := Some [1 \<mapsto> 10]\<rparr>;
       env = \<lparr>ticks = [TimerFired \<lparr>dial = DialOk 7, stoppingAfterDial = False,
                                     stoppingAtExit = False\<rparr>],
              isStopping = False, prepareFirstMessage = None,
              startResult = (\<lambda>u. None), rangeStart = [1], rangeReceive = [1]\<rparr>;
       evs = snd (snd (runOneCycle (\<lambda>k. 500) env c0));
       s = run (replicate (length evs) Supervisor) (startCycle evs)
   in fst (runOneCycle (\<lambda>k. 500) env c0) \<and>
      evs = [DialContext \<lparr>Scheme = ''ws'', Host = ''host1'', Path = ''/''\<rparr>, OnConnect,
             SenderStart 1 None, ReceiverStart 1, GoCoordinator 1,
             StopReceiver, StopSender, ConnClose (Some 7)] \<and>
      pending s = [] \<and> connClosed s \<and>
      senderTask s 1 = Some Running \<and> receiverTask s 1 = Some Running"
  by (simp add: Let_def runOneCycle_def ensureConnected_def tryConnectOnce_def
        tryConnectOnce_body_def tryConnectOnce_deferred_def NewWebSocket_def rangeKeys_def
        startReceivers_def startCycle_def supervisorStep_def numeral_eq_Suc)

end
